theory Spec2Isabelle
  imports Main "HOL-Library.Word"
begin

unbundle bit_operations_syntax

section \<open>Data model of tcp/tcp\_packet.go\<close>

text \<open>
  The decoded layers come from the gopacket library.  Only the fields that
  \<open>tcp_packet.go\<close> reads are kept, each with the width it has in gopacket:
  \<open>layers.IPv4.IHL\<close> and \<open>layers.TCP.DataOffset\<close> are \<open>uint8\<close>,
  \<open>layers.IPv4.Length\<close> and \<open>layers.IPv6.Length\<close> are \<open>uint16\<close>.
\<close>

type_synonym byte = "8 word"
type_synonym uint16 = "16 word"
type_synonym uint32 = "32 word"

text \<open>Go's \<open>error\<close> values are represented by their message.\<close>

type_synonym error = string

text \<open>
  \<open>time.Time\<close> is an instant; the zero value \<open>time.Time{}\<close> is \<open>0\<close>.
\<close>

type_synonym Time = int

record IPv4_layer =
  ipv4_IHL :: byte
  ipv4_Length :: uint16
  ipv4_SrcIP :: "byte list"
  ipv4_DstIP :: "byte list"

record IPv6_layer =
  ipv6_Length :: uint16
  ipv6_SrcIP :: "byte list"
  ipv6_DstIP :: "byte list"

text \<open>
  A value of the interface \<open>gopacket.NetworkLayer\<close>: its dynamic type is
  \<open>*layers.IPv4\<close>, \<open>*layers.IPv6\<close> or something else.  A nil interface is
  \<open>None\<close> of the option type used below.
\<close>

datatype NetworkLayer = IPv4 IPv4_layer | IPv6 IPv6_layer | OtherNetworkLayer

record TCPOption =
  OptionType :: byte
  OptionLength :: byte
  OptionData :: "byte list"

definition TCPOptionKindMSS :: byte where
  "TCPOptionKindMSS = 2"

definition TCPOptionKindWindowScale :: byte where
  "TCPOptionKindWindowScale = 3"

text \<open>\<open>layers.TCP\<close>; \<open>Payload\<close> is the field of the embedded \<open>BaseLayer\<close>.\<close>

record TCP_layer =
  SrcPort :: uint16
  DstPort :: uint16
  Seq :: uint32
  Ack :: uint32
  DataOffset :: byte
  FIN :: bool
  SYN :: bool
  RST :: bool
  PSH :: bool
  ACK :: bool
  URG :: bool
  Window :: uint16
  Options :: "TCPOption list"
  Payload :: "byte list"

datatype TransportLayer = TCPLayer TCP_layer | OtherTransportLayer

text \<open>
  \<open>gopacket.ErrorLayer\<close>: either a \<open>*gopacket.DecodeFailure\<close> or another
  layer implementing \<open>Error()\<close>.
\<close>

datatype ErrorLayer = DecodeFailure error | OtherErrorLayer error

fun ErrorLayer_Error :: "ErrorLayer \<Rightarrow> error" where
  "ErrorLayer_Error (DecodeFailure e) = e"
| "ErrorLayer_Error (OtherErrorLayer e) = e"

text \<open>
  The argument of \<open>ParsePacket\<close>, a \<open>gopacket.Packet\<close>, as far as the
  function observes it: the metadata timestamp and the five layer accessors.
\<close>

record gopacket =
  Metadata_Timestamp :: Time
  packet_LinkLayer :: "byte list option"
  packet_NetworkLayer :: "NetworkLayer option"
  packet_TransportLayer :: "TransportLayer option"
  packet_ApplicationLayer :: "byte list option"
  packet_ErrorLayer :: "ErrorLayer option"

text \<open>
  The struct \<open>Packet\<close>.  The embedded pointer \<open>*layers.TCP\<close> is the field
  \<open>TCP\<close>; a nil pointer or nil interface is \<open>None\<close>.
\<close>

record Packet =
  LinkLayer :: "byte list option"
  NetworkLayer :: "NetworkLayer option"
  TCP :: "TCP_layer option"
  DataLayer :: "byte list option"
  Lost :: uint16
  Timestamp :: Time

text \<open>The value \<open>new(Packet)\<close>: every field zero.\<close>

definition new_Packet :: Packet where
  "new_Packet = \<lparr>LinkLayer = None, NetworkLayer = None, TCP = None,
     DataLayer = None, Lost = 0, Timestamp = 0\<rparr>"

text \<open>Run-time panics of the Go code are values.\<close>

datatype panic = NilDereference | TypeAssertion | IndexOutOfRange

section \<open>Accessors\<close>

text \<open>\<open>Version\<close>: a comma-ok type assertion, which never panics.\<close>

definition Version :: "Packet \<Rightarrow> byte" where
  "Version pckt = (case NetworkLayer pckt of Some (IPv4 l) \<Rightarrow> 4 | _ \<Rightarrow> 6)"

text \<open>\<open>IHL\<close>: the multiplication is a \<open>uint8\<close> multiplication.\<close>

definition IHL :: "Packet \<Rightarrow> byte" where
  "IHL pckt = (case NetworkLayer pckt of Some (IPv4 l) \<Rightarrow> ipv4_IHL l * 4 | _ \<Rightarrow> 40)"

text \<open>
  \<open>Length\<close>: the second type assertion has no comma-ok form and panics on
  anything that is not an IPv6 layer.
\<close>

definition Length :: "Packet \<Rightarrow> panic + uint16" where
  "Length pckt = (case NetworkLayer pckt of
       Some (IPv4 l) \<Rightarrow> Inr (ipv4_Length l)
     | Some (IPv6 l) \<Rightarrow> Inr (ipv6_Length l)
     | _ \<Rightarrow> Inl TypeAssertion)"

text \<open>
  \<open>binary.BigEndian.Uint16\<close> reads \<open>b[1]\<close> first and panics on a slice
  shorter than two bytes.
\<close>

fun BigEndian_Uint16 :: "byte list \<Rightarrow> panic + uint16" where
  "BigEndian_Uint16 (b0 # b1 # bs) = Inr (ucast b1 OR push_bit 8 (ucast b0))"
| "BigEndian_Uint16 bs = Inl IndexOutOfRange"

text \<open>
  The loop of \<open>SYNOptions\<close> over \<open>pckt.Options\<close>, the two results threaded
  through.  \<open>1 << v.OptionData[0]\<close> is a shift of the \<open>uint16\<close> value 1.
\<close>

fun SYNOptions_loop :: "TCPOption list \<Rightarrow> uint16 \<Rightarrow> uint16 \<Rightarrow> panic + (uint16 \<times> uint16)" where
  "SYNOptions_loop [] mss windowscale = Inr (mss, windowscale)"
| "SYNOptions_loop (v # vs) mss windowscale =
     (if OptionType v = TCPOptionKindMSS then
        (case BigEndian_Uint16 (OptionData v) of
           Inl p \<Rightarrow> Inl p
         | Inr m \<Rightarrow> SYNOptions_loop vs m windowscale)
      else if OptionType v = TCPOptionKindWindowScale then
        (if OptionLength v > 0 then
           (case OptionData v of
              [] \<Rightarrow> Inl IndexOutOfRange
            | b # bs \<Rightarrow> SYNOptions_loop vs mss (push_bit (unat b) 1))
         else SYNOptions_loop vs mss windowscale)
      else SYNOptions_loop vs mss windowscale)"

definition SYNOptions :: "Packet \<Rightarrow> panic + (uint16 \<times> uint16)" where
  "SYNOptions pckt = (case TCP pckt of
       None \<Rightarrow> Inl NilDereference
     | Some t \<Rightarrow> if \<not> SYN t then Inr (0, 0) else SYNOptions_loop (Options t) 0 0)"

definition Flag :: "Packet \<Rightarrow> panic + string" where
  "Flag pckt = (case TCP pckt of
       None \<Rightarrow> Inl NilDereference
     | Some t \<Rightarrow>
        (let flag = [];
             flag = (if FIN t then flag @ ''FIN, '' else flag);
             flag = (if SYN t then flag @ ''SYN, '' else flag);
             flag = (if RST t then flag @ ''RST, '' else flag);
             flag = (if PSH t then flag @ ''PSH, '' else flag);
             flag = (if ACK t then flag @ ''ACK, '' else flag);
             flag = (if URG t then flag @ ''URG, '' else flag)
         in if length flag \<noteq> 0 then Inr (take (length flag - 2) flag) else Inr flag))"

section \<open>ParsePacket\<close>

text \<open>
  What a call leaves behind: the named results \<open>pckt\<close> and \<open>err\<close>, and
  the argument as the call leaves it, because \<open>pckt.TCP\<close> is the pointer
  returned by \<open>packet.TransportLayer()\<close> and \<open>pckt.DataOffset *= 4\<close>
  writes through it into the decoder's own TCP layer.
\<close>

record ParseResult =
  pckt :: Packet
  err :: "error option"
  packet_after :: gopacket

text \<open>
  The body of \<open>ParsePacket\<close> up to its return statements.
  \<open>headerSize\<close> and \<open>len(pckt.Payload)\<close> are Go \<open>int\<close>s (64 bits, far from
  overflow here) and are integers in the model; \<open>uint16(...)\<close> keeps the low
  16 bits.  \<open>now\<close> is the value \<open>time.Now()\<close> would return.
\<close>

definition ParsePacket_body :: "Time \<Rightarrow> gopacket \<Rightarrow> panic + (Packet \<times> gopacket)" where
  "ParsePacket_body now packet =
    (let pckt = new_Packet;
         pckt = pckt\<lparr>Timestamp := Metadata_Timestamp packet\<rparr>;
         pckt = (if Timestamp pckt = 0 then pckt\<lparr>Timestamp := now\<rparr> else pckt);
         pckt = pckt\<lparr>LinkLayer := packet_LinkLayer packet\<rparr>;
         net = (case packet_NetworkLayer packet of
                  Some (IPv4 net4) \<Rightarrow> Some (IPv4 net4)
                | Some (IPv6 net6) \<Rightarrow> Some (IPv6 net6)
                | _ \<Rightarrow> None)
     in case net of
          None \<Rightarrow> Inr (pckt, packet)
        | Some n \<Rightarrow>
           (let pckt = pckt\<lparr>NetworkLayer := Some n\<rparr>
            in case packet_TransportLayer packet of
                 Some (TCPLayer tcp) \<Rightarrow>
                  (let tcp = tcp\<lparr>DataOffset := DataOffset tcp * 4\<rparr>;
                       packet = packet\<lparr>packet_TransportLayer := Some (TCPLayer tcp)\<rparr>;
                       pckt = pckt\<lparr>TCP := Some tcp\<rparr>;
                       pckt = pckt\<lparr>DataLayer := packet_ApplicationLayer packet\<rparr>;
                       headerSize = uint ((ucast (DataOffset tcp) :: uint32) + ucast (IHL pckt));
                       headerSize = (if Version pckt = 6 then uint (DataOffset tcp) else headerSize)
                   in case Length pckt of
                        Inl p \<Rightarrow> Inl p
                      | Inr l \<Rightarrow>
                         Inr (pckt\<lparr>Lost := l - word_of_int (headerSize + int (length (Payload tcp)))\<rparr>,
                              packet))
               | _ \<Rightarrow> Inr (pckt, packet)))"

text \<open>
  The deferred function runs when the body has returned, whichever return
  statement ended it, and only assigns \<open>err\<close>; both branches of its type
  test call the layer's \<open>Error()\<close>.
\<close>

definition deferred_err :: "gopacket \<Rightarrow> error option" where
  "deferred_err packet = (case packet_ErrorLayer packet of
       None \<Rightarrow> None
     | Some e \<Rightarrow> Some (ErrorLayer_Error e))"

definition ParsePacket :: "Time \<Rightarrow> gopacket \<Rightarrow> panic + ParseResult" where
  "ParsePacket now packet = (case ParsePacket_body now packet of
       Inl p \<Rightarrow> Inl p
     | Inr (p, packet') \<Rightarrow>
         Inr \<lparr>pckt = p, err = deferred_err packet', packet_after = packet'\<rparr>)"

section \<open>Notions of the specification\<close>

text \<open>
  The frames \<open>ParsePacket\<close> accepts: an IPv4 or IPv6 network layer and a TCP
  transport layer.
\<close>

definition network_is_IP :: "gopacket \<Rightarrow> bool" where
  "network_is_IP packet = (case packet_NetworkLayer packet of
       Some (IPv4 l) \<Rightarrow> True | Some (IPv6 l) \<Rightarrow> True | _ \<Rightarrow> False)"

definition transport_is_TCP :: "gopacket \<Rightarrow> bool" where
  "transport_is_TCP packet = (case packet_TransportLayer packet of
       Some (TCPLayer t) \<Rightarrow> True | _ \<Rightarrow> False)"

text \<open>The timestamp the record gets: the decoder's, or the current time when that is zero.\<close>

definition Timestamp_of :: "Time \<Rightarrow> gopacket \<Rightarrow> Time" where
  "Timestamp_of now packet =
     (if Metadata_Timestamp packet = 0 then now else Metadata_Timestamp packet)"

text \<open>
  The declared IP length of a network layer, and the bytes accounted for by
  the headers and the observed payload: the record's data offset (the
  decoder's value times 4, in \<open>uint8\<close>), for IPv4 the header length \<open>IHL()\<close>
  (the IHL field times 4, in \<open>uint8\<close>), and \<open>len(Payload)\<close>.
\<close>

definition declared_length :: "NetworkLayer \<Rightarrow> uint16" where
  "declared_length n = (case n of
       IPv4 l \<Rightarrow> ipv4_Length l | IPv6 l \<Rightarrow> ipv6_Length l | OtherNetworkLayer \<Rightarrow> 0)"

definition observed_size :: "NetworkLayer \<Rightarrow> TCP_layer \<Rightarrow> nat" where
  "observed_size n t = (case n of
       IPv4 l \<Rightarrow> unat (DataOffset t * 4) + unat (ipv4_IHL l * 4) + length (Payload t)
     | _ \<Rightarrow> unat (DataOffset t * 4) + length (Payload t))"

text \<open>Joining strings with a separator, and the names of the flags that are set, in the fixed order.\<close>

fun join_with :: "string \<Rightarrow> string list \<Rightarrow> string" where
  "join_with sep [] = []"
| "join_with sep [x] = x"
| "join_with sep (x # y # ys) = x @ sep @ join_with sep (y # ys)"

definition set_flag_names :: "TCP_layer \<Rightarrow> string list" where
  "set_flag_names t = map snd (filter fst
     [(FIN t, ''FIN''), (SYN t, ''SYN''), (RST t, ''RST''),
      (PSH t, ''PSH''), (ACK t, ''ACK''), (URG t, ''URG'')])"

text \<open>
  The last element of a list that satisfies a predicate; the big-endian value
  of the first two bytes; the options the scan of \<open>SYNOptions\<close> reads.
\<close>

definition last_where :: "('a \<Rightarrow> bool) \<Rightarrow> 'a list \<Rightarrow> 'a option" where
  "last_where P xs = (case filter P xs of [] \<Rightarrow> None | y # ys \<Rightarrow> Some (last (y # ys)))"

definition big_endian_16 :: "byte list \<Rightarrow> nat" where
  "big_endian_16 bs = (case bs of b0 # b1 # rest \<Rightarrow> 256 * unat b0 + unat b1 | _ \<Rightarrow> 0)"

definition is_MSS :: "TCPOption \<Rightarrow> bool" where
  "is_MSS v = (OptionType v = TCPOptionKindMSS)"

definition is_WindowScale :: "TCPOption \<Rightarrow> bool" where
  "is_WindowScale v = (OptionType v = TCPOptionKindWindowScale \<and> OptionLength v > 0)"

definition last_MSS :: "TCPOption list \<Rightarrow> nat" where
  "last_MSS opts = (case last_where is_MSS opts of
       None \<Rightarrow> 0 | Some v \<Rightarrow> big_endian_16 (OptionData v))"

definition last_WindowScale :: "TCPOption list \<Rightarrow> nat option" where
  "last_WindowScale opts = (case last_where is_WindowScale opts of
       None \<Rightarrow> None | Some v \<Rightarrow> (case OptionData v of [] \<Rightarrow> None | b # bs \<Rightarrow> Some (unat b)))"

text \<open>Options whose data is long enough for the reads of \<open>SYNOptions\<close>.\<close>

definition data_long_enough :: "TCPOption \<Rightarrow> bool" where
  "data_long_enough v =
     ((is_MSS v \<longrightarrow> 2 \<le> length (OptionData v)) \<and>
      (is_WindowScale v \<longrightarrow> 1 \<le> length (OptionData v)))"

section \<open>Example frames\<close>

definition example_ipv4 :: "uint16 \<Rightarrow> NetworkLayer" where
  "example_ipv4 len = IPv4 \<lparr>ipv4_IHL = 5, ipv4_Length = len,
     ipv4_SrcIP = [10, 0, 0, 1], ipv4_DstIP = [10, 0, 0, 2]\<rparr>"

definition example_ipv6 :: "uint16 \<Rightarrow> NetworkLayer" where
  "example_ipv6 len = IPv6 \<lparr>ipv6_Length = len,
     ipv6_SrcIP = replicate 15 0 @ [1], ipv6_DstIP = replicate 15 0 @ [2]\<rparr>"

text \<open>A TCP layer with the given header length in words, SYN and ACK bits, options and payload.\<close>

definition example_tcp :: "byte \<Rightarrow> bool \<Rightarrow> bool \<Rightarrow> TCPOption list \<Rightarrow> byte list \<Rightarrow> TCP_layer" where
  "example_tcp off syn ack opts data = \<lparr>SrcPort = 49152, DstPort = 80, Seq = 1, Ack = 0,
     DataOffset = off, FIN = False, SYN = syn, RST = False, PSH = False, ACK = ack,
     URG = False, Window = 8192, Options = opts, Payload = data\<rparr>"

definition example_packet ::
    "NetworkLayer option \<Rightarrow> TransportLayer option \<Rightarrow> ErrorLayer option \<Rightarrow> gopacket" where
  "example_packet n t e = \<lparr>Metadata_Timestamp = 1000, packet_LinkLayer = Some [],
     packet_NetworkLayer = n, packet_TransportLayer = t,
     packet_ApplicationLayer = None, packet_ErrorLayer = e\<rparr>"

text \<open>
  Declared IPv4 total length 60, IHL 5, TCP header of 5 words, 15 payload
  bytes; the same frame declaring 40 bytes only; its IPv6 counterpart.
\<close>

definition frame_60 :: gopacket where
  "frame_60 = example_packet (Some (example_ipv4 60))
     (Some (TCPLayer (example_tcp 5 True True [] (replicate 15 0)))) None"

definition frame_40 :: gopacket where
  "frame_40 = example_packet (Some (example_ipv4 40))
     (Some (TCPLayer (example_tcp 5 True True [] (replicate 15 0)))) None"

definition frame_v6 :: gopacket where
  "frame_v6 = example_packet (Some (example_ipv6 35))
     (Some (TCPLayer (example_tcp 5 False True [] (replicate 15 0)))) None"

text \<open>An IPv6 frame that declares a payload length of 0 and carries 100 payload bytes.\<close>

definition frame_v6_zero :: gopacket where
  "frame_v6_zero = example_packet (Some (example_ipv6 0))
     (Some (TCPLayer (example_tcp 5 False True [] (replicate 100 0)))) None"

text \<open>An IPv4 frame carrying something other than TCP, and a frame with no network layer.\<close>

definition frame_udp :: gopacket where
  "frame_udp = example_packet (Some (example_ipv4 60)) (Some OtherTransportLayer) None"

definition frame_arp :: gopacket where
  "frame_arp = example_packet (Some OtherNetworkLayer) None None"

text \<open>A TCP-over-IPv4 frame for which the decoder also reports a decode failure.\<close>

definition frame_failed :: gopacket where
  "frame_failed = example_packet (Some (example_ipv4 60))
     (Some (TCPLayer (example_tcp 5 True True [] (replicate 15 0))))
     (Some (DecodeFailure ''Invalid TCP option length''))"

text \<open>
  Records with SYN options: MSS \<open>05 B4\<close> and window scale \<open>07\<close>; a window
  scale of 16; a window-scale option and an MSS option of declared length 2,
  which have no data; the latter in a frame, and in a record without the SYN
  bit.
\<close>

definition record_of :: "TCP_layer \<Rightarrow> Packet" where
  "record_of t = new_Packet\<lparr>NetworkLayer := Some (example_ipv4 60), TCP := Some t\<rparr>"

definition syn_record :: Packet where
  "syn_record = record_of (example_tcp 28 True False
     [\<lparr>OptionType = 2, OptionLength = 4, OptionData = [0x05, 0xB4]\<rparr>,
      \<lparr>OptionType = 1, OptionLength = 1, OptionData = []\<rparr>,
      \<lparr>OptionType = 3, OptionLength = 3, OptionData = [0x07]\<rparr>] [])"

definition syn_record_scale_16 :: Packet where
  "syn_record_scale_16 = record_of (example_tcp 24 True False
     [\<lparr>OptionType = 3, OptionLength = 3, OptionData = [16]\<rparr>,
      \<lparr>OptionType = 0, OptionLength = 1, OptionData = []\<rparr>] [])"

definition short_MSS_options :: "TCPOption list" where
  "short_MSS_options =
     [\<lparr>OptionType = 2, OptionLength = 2, OptionData = []\<rparr>,
      \<lparr>OptionType = 0, OptionLength = 1, OptionData = []\<rparr>]"

definition syn_record_short_scale :: Packet where
  "syn_record_short_scale = record_of (example_tcp 24 True False
     [\<lparr>OptionType = 3, OptionLength = 2, OptionData = []\<rparr>,
      \<lparr>OptionType = 0, OptionLength = 1, OptionData = []\<rparr>] [])"

definition frame_short_MSS :: gopacket where
  "frame_short_MSS = example_packet (Some (example_ipv4 44))
     (Some (TCPLayer (example_tcp 6 True False short_MSS_options []))) None"

definition ack_record_short_MSS :: Packet where
  "ack_record_short_MSS = record_of (example_tcp 24 False True short_MSS_options [])"

section \<open>What ParsePacket returns, by the shape of the frame\<close>

lemma ParsePacket_no_IP:
  assumes "\<not> network_is_IP packet"
  shows "ParsePacket now packet = Inr \<lparr>pckt = \<lparr>LinkLayer = packet_LinkLayer packet,
           NetworkLayer = None, TCP = None, DataLayer = None, Lost = 0,
           Timestamp = Timestamp_of now packet\<rparr>,
         err = deferred_err packet, packet_after = packet\<rparr>"
  using assms
  by (simp add: ParsePacket_def ParsePacket_body_def new_Packet_def Timestamp_of_def
      network_is_IP_def split: option.splits NetworkLayer.splits)

lemma ParsePacket_no_TCP:
  assumes "packet_NetworkLayer packet = Some n" and "n \<noteq> OtherNetworkLayer"
      and "\<not> transport_is_TCP packet"
  shows "ParsePacket now packet = Inr \<lparr>pckt = \<lparr>LinkLayer = packet_LinkLayer packet,
           NetworkLayer = Some n, TCP = None, DataLayer = None, Lost = 0,
           Timestamp = Timestamp_of now packet\<rparr>,
         err = deferred_err packet, packet_after = packet\<rparr>"
proof (cases "packet_TransportLayer packet")
  case None
  with assms(1,2) show ?thesis
    by (cases n)
       (simp_all add: ParsePacket_def ParsePacket_body_def new_Packet_def Timestamp_of_def)
next
  case (Some tl)
  have "tl = OtherTransportLayer"
    using assms(3) Some by (cases tl) (simp_all add: transport_is_TCP_def)
  with Some assms(1,2) show ?thesis
    by (cases n)
       (simp_all add: ParsePacket_def ParsePacket_body_def new_Packet_def Timestamp_of_def)
qed

lemma uint_header_sum:
  "uint ((ucast (a::byte) :: uint32) + ucast (b::byte)) = int (unat a + unat b)"
proof -
  have bounds: "0 \<le> uint a" "uint a < 256" "0 \<le> uint b" "uint b < 256"
    using unsigned_less [of a, where ?'a = int] unsigned_less [of b, where ?'a = int]
    by simp_all
  have "uint ((ucast a :: uint32) + ucast b) = (uint a + uint b) mod 4294967296"
    by (simp add: uint_word_ariths unsigned_ucast_eq take_bit_eq_mod mod_simps)
  also have "\<dots> = uint a + uint b"
    using bounds by simp
  finally show ?thesis by simp
qed

lemma ParsePacket_IPv4_TCP:
  assumes "packet_NetworkLayer packet = Some (IPv4 l)"
      and "packet_TransportLayer packet = Some (TCPLayer t)"
  shows "ParsePacket now packet = Inr \<lparr>pckt = \<lparr>LinkLayer = packet_LinkLayer packet,
           NetworkLayer = Some (IPv4 l), TCP = Some (t\<lparr>DataOffset := DataOffset t * 4\<rparr>),
           DataLayer = packet_ApplicationLayer packet,
           Lost = ipv4_Length l - word_of_int
             (uint ((ucast (DataOffset t * 4) :: uint32) + ucast (ipv4_IHL l * 4))
                + int (length (Payload t))),
           Timestamp = Timestamp_of now packet\<rparr>,
         err = deferred_err packet,
         packet_after = packet\<lparr>packet_TransportLayer :=
           Some (TCPLayer (t\<lparr>DataOffset := DataOffset t * 4\<rparr>))\<rparr>\<rparr>"
  using assms
  by (simp add: ParsePacket_def ParsePacket_body_def new_Packet_def Timestamp_of_def
      IHL_def Version_def Length_def Let_def deferred_err_def)

lemma ParsePacket_IPv6_TCP:
  assumes "packet_NetworkLayer packet = Some (IPv6 l)"
      and "packet_TransportLayer packet = Some (TCPLayer t)"
  shows "ParsePacket now packet = Inr \<lparr>pckt = \<lparr>LinkLayer = packet_LinkLayer packet,
           NetworkLayer = Some (IPv6 l), TCP = Some (t\<lparr>DataOffset := DataOffset t * 4\<rparr>),
           DataLayer = packet_ApplicationLayer packet,
           Lost = ipv6_Length l - word_of_int
             (uint (DataOffset t * 4) + int (length (Payload t))),
           Timestamp = Timestamp_of now packet\<rparr>,
         err = deferred_err packet,
         packet_after = packet\<lparr>packet_TransportLayer :=
           Some (TCPLayer (t\<lparr>DataOffset := DataOffset t * 4\<rparr>))\<rparr>\<rparr>"
  using assms
  by (simp add: ParsePacket_def ParsePacket_body_def new_Packet_def Timestamp_of_def
      IHL_def Version_def Length_def Let_def deferred_err_def)

text \<open>The record of an accepted frame, field by field.\<close>

lemma ParsePacket_accepted:
  assumes "packet_NetworkLayer packet = Some n" and "n \<noteq> OtherNetworkLayer"
      and "packet_TransportLayer packet = Some (TCPLayer t)"
  shows "\<exists>r. ParsePacket now packet = Inr r
           \<and> NetworkLayer (pckt r) = Some n
           \<and> TCP (pckt r) = Some (t\<lparr>DataOffset := DataOffset t * 4\<rparr>)
           \<and> DataLayer (pckt r) = packet_ApplicationLayer packet
           \<and> Lost (pckt r) = declared_length n - word_of_int (int (observed_size n t))
           \<and> err r = deferred_err packet
           \<and> LinkLayer (pckt r) = packet_LinkLayer packet
           \<and> Timestamp (pckt r) = Timestamp_of now packet
           \<and> packet_after r = packet\<lparr>packet_TransportLayer :=
                 Some (TCPLayer (t\<lparr>DataOffset := DataOffset t * 4\<rparr>))\<rparr>"
proof (cases n)
  case (IPv4 l)
  show ?thesis
    using ParsePacket_IPv4_TCP [of packet l t now] assms(1,3) IPv4
    by (simp add: declared_length_def observed_size_def uint_header_sum)
next
  case (IPv6 l)
  show ?thesis
    using ParsePacket_IPv6_TCP [of packet l t now] assms(1,3) IPv6
    by (simp add: declared_length_def observed_size_def)
next
  case OtherNetworkLayer
  with assms(2) show ?thesis by simp
qed

lemma word16_sub_exact:
  assumes "k \<le> unat (a::uint16)"
  shows "unat (a - word_of_int (int k)) = unat a - k"
  by (metis (no_types, lifting) assms le_unat_uoi of_int_of_nat_eq unat_sub
    word_less_eq_iff_unsigned)

lemma word16_sub_mod: "uint ((a::uint16) - word_of_int k) = (uint a - k) mod 65536"
  by (simp add: uint_word_ariths uint_word_of_int take_bit_eq_mod mod_diff_right_eq)

lemma mod_65536_negative:
  assumes "- 65536 < (x::int)" and "x < 0"
  shows "x mod 65536 = x + 65536"
proof -
  have "(x + 65536) mod 65536 = x + 65536"
    using assms by (intro mod_pos_pos_trivial) simp_all
  then show ?thesis by simp
qed

lemma byte_times_4_exact: "unat (d::byte) < 64 \<Longrightarrow> unat (d * 4) = 4 * unat d"
  by (simp add: unat_word_ariths)

lemma byte_times_4_dvd: "4 dvd unat ((d::byte) * 4)"
proof -
  have "unat (d * 4) = (unat d * 4) mod 256"
    by (simp add: unat_word_ariths)
  moreover have "(4::nat) dvd (unat d * 4) mod 256"
    by (simp add: dvd_mod)
  ultimately show ?thesis by simp
qed

section \<open>Version\<close>

text \<open>
  C10.  For every \<open>Packet\<close> value, \<open>Version\<close> returns 4 exactly when the
  stored network layer is an IPv4 layer and 6 in every other case, also when
  the network layer is nil or of another shape; it returns nothing but 4 or 6.
  The function has no error result and its comma-ok type assertion cannot
  panic, so the model is a total function.
\<close>

theorem Version_4_iff_IPv4:
  "(Version p = 4 \<longleftrightarrow> (\<exists>l. NetworkLayer p = Some (IPv4 l)))
   \<and> (Version p \<noteq> 4 \<longrightarrow> Version p = 6)
   \<and> (NetworkLayer p = None \<longrightarrow> Version p = 6)
   \<and> (NetworkLayer p = Some OtherNetworkLayer \<longrightarrow> Version p = 6)
   \<and> (\<forall>l. NetworkLayer p = Some (IPv6 l) \<longrightarrow> Version p = 6)"
  by (auto simp: Version_def split: option.splits NetworkLayer.splits)

theorem Version_4_iff_IPv4_witness:
  "NetworkLayer new_Packet = None \<and> Version new_Packet = 6
   \<and> Version (record_of (example_tcp 20 True True [] [])) = 4"
proof -
  have none: "NetworkLayer new_Packet = None"
    by (simp add: new_Packet_def)
  have v4: "\<exists>l. NetworkLayer (record_of (example_tcp 20 True True [] [])) = Some (IPv4 l)"
    by (simp add: record_of_def example_ipv4_def)
  from Version_4_iff_IPv4 [of new_Packet] none have "Version new_Packet = 6"
    by blast
  moreover from Version_4_iff_IPv4 [of "record_of (example_tcp 20 True True [] [])"] v4
  have "Version (record_of (example_tcp 20 True True [] [])) = 4"
    by blast
  ultimately show ?thesis
    using none by blast
qed

section \<open>The data offset\<close>

text \<open>
  C3.  For every frame that \<open>ParsePacket\<close> accepts (IPv4 or IPv6 network
  layer, TCP transport layer), the \<open>DataOffset\<close> of the record is the
  decoder's header length in words multiplied by 4, and a multiple of 4.  The
  field is a \<open>uint8\<close> and so is the multiplication: the product is exact for
  every word count below 64, which covers the 4-bit field of the TCP header
  (at most 15) that the decoder reports.
\<close>

theorem DataOffset_is_4_times_words:
  assumes "packet_NetworkLayer packet = Some n" and "n \<noteq> OtherNetworkLayer"
      and "packet_TransportLayer packet = Some (TCPLayer t)"
  shows "\<exists>r t'. ParsePacket now packet = Inr r \<and> TCP (pckt r) = Some t'
           \<and> DataOffset t' = 4 * DataOffset t
           \<and> 4 dvd unat (DataOffset t')
           \<and> (unat (DataOffset t) < 64 \<longrightarrow> unat (DataOffset t') = 4 * unat (DataOffset t))"
proof -
  from ParsePacket_accepted [OF assms, of now]
  obtain r where r: "ParsePacket now packet = Inr r"
      "TCP (pckt r) = Some (t\<lparr>DataOffset := DataOffset t * 4\<rparr>)"
    by blast
  have "DataOffset (t\<lparr>DataOffset := DataOffset t * 4\<rparr>) = 4 * DataOffset t"
    by simp
  moreover have "4 dvd unat (DataOffset (t\<lparr>DataOffset := DataOffset t * 4\<rparr>))"
    by (simp add: byte_times_4_dvd)
  moreover have "unat (DataOffset t) < 64 \<longrightarrow>
      unat (DataOffset (t\<lparr>DataOffset := DataOffset t * 4\<rparr>)) = 4 * unat (DataOffset t)"
    by (simp add: byte_times_4_exact)
  ultimately show ?thesis
    using r by blast
qed

theorem DataOffset_is_4_times_words_witness:
  "\<exists>r t'. ParsePacket 0 frame_v6 = Inr r \<and> TCP (pckt r) = Some t' \<and> DataOffset t' = 20"
proof -
  have "packet_NetworkLayer frame_v6 = Some (example_ipv6 35)"
    and "example_ipv6 35 \<noteq> OtherNetworkLayer"
    and "packet_TransportLayer frame_v6
           = Some (TCPLayer (example_tcp 5 False True [] (replicate 15 0)))"
    by (simp_all add: frame_v6_def example_packet_def example_ipv6_def)
  from DataOffset_is_4_times_words [OF this, of 0] show ?thesis
    by (auto simp: example_tcp_def)
qed

section \<open>Lost bytes\<close>

text \<open>
  C1 as stated fails: \<open>Lost\<close> is a \<open>uint16\<close> and so is the subtraction.
  An IPv6 frame that declares a payload length of 0 and carries a TCP header
  of 5 words and 100 payload bytes is parsed with no error; the declared
  length minus the 20 header bytes and the 100 payload bytes is \<open>-120\<close>, and
  \<open>Lost\<close> is 65416.
\<close>

theorem Lost_below_zero_counterexample:
  "\<not> isl (ParsePacket 0 frame_v6_zero)
   \<and> err (projr (ParsePacket 0 frame_v6_zero)) = None
   \<and> uint (declared_length (example_ipv6 0))
        - int (observed_size (example_ipv6 0) (example_tcp 5 False True [] (replicate 100 0)))
       = - 120
   \<and> Lost (pckt (projr (ParsePacket 0 frame_v6_zero))) = 65416"
proof -
  have "packet_NetworkLayer frame_v6_zero = Some (IPv6 \<lparr>ipv6_Length = 0,
           ipv6_SrcIP = replicate 15 0 @ [1], ipv6_DstIP = replicate 15 0 @ [2]\<rparr>)"
    and "packet_TransportLayer frame_v6_zero
           = Some (TCPLayer (example_tcp 5 False True [] (replicate 100 0)))"
    by (simp_all add: frame_v6_zero_def example_packet_def example_ipv6_def)
  from ParsePacket_IPv6_TCP [OF this, of 0] show ?thesis
    by (simp add: deferred_err_def frame_v6_zero_def example_packet_def example_ipv6_def
        example_tcp_def declared_length_def observed_size_def)
qed

text \<open>
  C1, amended.  For every accepted frame, \<open>ParsePacket\<close> stores in \<open>Lost\<close>
  the declared IP length minus the header size plus the observed payload
  length, computed in \<open>uint16\<close>, that is, reduced modulo \<open>2^16\<close>; the header
  size is the data offset plus the IP header length in bytes for IPv4 and the
  data offset alone for IPv6.  \<open>Lost\<close> is the difference of the numbers
  whenever headers and payload do not exceed the declared length.  A frame
  with declared IPv4 length 60, IHL 5, a TCP header of 5 words and 15 payload
  bytes has \<open>Lost = 5\<close>.
\<close>

theorem Lost_is_declared_minus_observed:
  assumes "packet_NetworkLayer packet = Some n" and "n \<noteq> OtherNetworkLayer"
      and "packet_TransportLayer packet = Some (TCPLayer t)"
  shows "\<exists>r. ParsePacket now packet = Inr r
           \<and> Lost (pckt r) = declared_length n - word_of_nat (observed_size n t)
           \<and> uint (Lost (pckt r))
               = (uint (declared_length n) - int (observed_size n t)) mod 65536
           \<and> (observed_size n t \<le> unat (declared_length n) \<longrightarrow>
                int (unat (Lost (pckt r)))
                  = int (unat (declared_length n)) - int (observed_size n t))
           \<and> (\<forall>l. n = IPv4 l \<longrightarrow> observed_size n t
                  = unat (DataOffset t * 4) + unat (ipv4_IHL l * 4) + length (Payload t))
           \<and> (\<forall>l. n = IPv6 l \<longrightarrow> observed_size n t
                  = unat (DataOffset t * 4) + length (Payload t))
           \<and> (\<forall>l. n = IPv4 l \<and> ipv4_Length l = 60 \<and> ipv4_IHL l = 5 \<and> DataOffset t = 5
                  \<and> length (Payload t) = 15 \<longrightarrow> Lost (pckt r) = 5)"
proof -
  from ParsePacket_accepted [OF assms, of now]
  obtain r where r: "ParsePacket now packet = Inr r"
      "Lost (pckt r) = declared_length n - word_of_int (int (observed_size n t))"
    by blast
  have m: "uint (Lost (pckt r))
      = (uint (declared_length n) - int (observed_size n t)) mod 65536"
    using r(2) by (simp only: word16_sub_mod)
  have exact: "observed_size n t \<le> unat (declared_length n) \<longrightarrow>
      int (unat (Lost (pckt r))) = int (unat (declared_length n)) - int (observed_size n t)"
    using word16_sub_exact [of "observed_size n t" "declared_length n"] r(2)
    by auto
  have example: "\<forall>l. n = IPv4 l \<and> ipv4_Length l = 60 \<and> ipv4_IHL l = 5 \<and> DataOffset t = 5
      \<and> length (Payload t) = 15 \<longrightarrow> Lost (pckt r) = 5"
    using r(2) by (auto simp: declared_length_def observed_size_def)
  have sizes: "\<forall>l. n = IPv4 l \<longrightarrow> observed_size n t
      = unat (DataOffset t * 4) + unat (ipv4_IHL l * 4) + length (Payload t)"
    "\<forall>l. n = IPv6 l \<longrightarrow> observed_size n t = unat (DataOffset t * 4) + length (Payload t)"
    by (simp_all add: observed_size_def)
  have w: "Lost (pckt r) = declared_length n - word_of_nat (observed_size n t)"
    using r(2) by simp
  from r(1) w m exact sizes example show ?thesis
    by blast
qed

theorem Lost_is_declared_minus_observed_witness:
  "\<exists>r. ParsePacket 0 frame_60 = Inr r \<and> Lost (pckt r) = 5"
proof -
  have "packet_NetworkLayer frame_60 = Some (example_ipv4 60)"
    and "example_ipv4 60 \<noteq> OtherNetworkLayer"
    and "packet_TransportLayer frame_60
           = Some (TCPLayer (example_tcp 5 True True [] (replicate 15 0)))"
    by (simp_all add: frame_60_def example_packet_def example_ipv4_def)
  from Lost_is_declared_minus_observed [OF this, of 0] show ?thesis
    by (auto simp: example_ipv4_def example_tcp_def)
qed

text \<open>
  C2 as stated fails: the subtraction is a \<open>uint16\<close> subtraction.  The
  frame of C1's example declaring 40 bytes, 15 fewer than its 40 header bytes
  and 15 payload bytes, is parsed with no error and gets \<open>Lost = 65521\<close>;
  the record, shown whole, has no field that marks the wrap-around.
\<close>

theorem Lost_wraps_counterexample:
  "unat (declared_length (example_ipv4 40))
     < observed_size (example_ipv4 40) (example_tcp 5 True True [] (replicate 15 0))
   \<and> \<not> isl (ParsePacket 0 frame_40)
   \<and> err (projr (ParsePacket 0 frame_40)) = None
   \<and> pckt (projr (ParsePacket 0 frame_40)) = \<lparr>LinkLayer = Some [],
        NetworkLayer = Some (example_ipv4 40),
        TCP = Some (example_tcp 20 True True [] (replicate 15 0)),
        DataLayer = None, Lost = 65521, Timestamp = 1000\<rparr>"
proof -
  have "packet_NetworkLayer frame_40 = Some (IPv4 \<lparr>ipv4_IHL = 5, ipv4_Length = 40,
           ipv4_SrcIP = [10, 0, 0, 1], ipv4_DstIP = [10, 0, 0, 2]\<rparr>)"
    and "packet_TransportLayer frame_40
           = Some (TCPLayer (example_tcp 5 True True [] (replicate 15 0)))"
    by (simp_all add: frame_40_def example_packet_def example_ipv4_def)
  from ParsePacket_IPv4_TCP [OF this, of 0] show ?thesis
    by (simp add: deferred_err_def frame_40_def example_packet_def example_ipv4_def
        example_tcp_def declared_length_def observed_size_def Timestamp_of_def)
qed

text \<open>
  C2, amended.  For every accepted frame \<open>Lost\<close> is the difference of the
  declared IP length and the header size plus observed payload length reduced
  modulo \<open>2^16\<close>: when the declared length is the smaller one, by less than
  \<open>2^16\<close>, \<open>Lost\<close> is \<open>2^16\<close> minus the deficit.  Nothing else in the
  result depends on the difference: the other fields of the record are the
  link layer, the network layer, the TCP layer with its data offset in bytes,
  the application layer and the timestamp of the frame, and the error is that
  of the decoder's error layer, nil when there is none.
\<close>

theorem Lost_is_difference_mod_65536:
  assumes "packet_NetworkLayer packet = Some n" and "n \<noteq> OtherNetworkLayer"
      and "packet_TransportLayer packet = Some (TCPLayer t)"
  shows "\<exists>r. ParsePacket now packet = Inr r
           \<and> uint (Lost (pckt r))
               = (uint (declared_length n) - int (observed_size n t)) mod 65536
           \<and> (unat (declared_length n) < observed_size n t
                \<and> observed_size n t - unat (declared_length n) < 65536 \<longrightarrow>
              unat (Lost (pckt r))
                = 65536 - (observed_size n t - unat (declared_length n)))
           \<and> (pckt r)\<lparr>Lost := 0\<rparr> = \<lparr>LinkLayer = packet_LinkLayer packet,
                NetworkLayer = Some n,
                TCP = Some (t\<lparr>DataOffset := DataOffset t * 4\<rparr>),
                DataLayer = packet_ApplicationLayer packet, Lost = 0,
                Timestamp = Timestamp_of now packet\<rparr>
           \<and> err r = deferred_err packet
           \<and> (packet_ErrorLayer packet = None \<longrightarrow> err r = None)"
proof -
  from ParsePacket_accepted [OF assms, of now]
  obtain r where r: "ParsePacket now packet = Inr r"
      "Lost (pckt r) = declared_length n - word_of_int (int (observed_size n t))"
      "NetworkLayer (pckt r) = Some n"
      "TCP (pckt r) = Some (t\<lparr>DataOffset := DataOffset t * 4\<rparr>)"
      "DataLayer (pckt r) = packet_ApplicationLayer packet"
      "LinkLayer (pckt r) = packet_LinkLayer packet"
      "Timestamp (pckt r) = Timestamp_of now packet"
      "err r = deferred_err packet"
    by blast
  have m: "uint (Lost (pckt r))
      = (uint (declared_length n) - int (observed_size n t)) mod 65536"
    using r(2) by (simp only: word16_sub_mod)
  have wrapped: "unat (declared_length n) < observed_size n t
        \<and> observed_size n t - unat (declared_length n) < 65536 \<longrightarrow>
      unat (Lost (pckt r)) = 65536 - (observed_size n t - unat (declared_length n))"
  proof
    assume "unat (declared_length n) < observed_size n t
        \<and> observed_size n t - unat (declared_length n) < 65536"
    then have lt: "unat (declared_length n) < observed_size n t"
      and small: "observed_size n t - unat (declared_length n) < 65536"
      by simp_all
    have u: "uint (declared_length n) = int (unat (declared_length n))"
      and v: "uint (Lost (pckt r)) = int (unat (Lost (pckt r)))"
      by (rule uint_nat)+
    have "- 65536 < int (unat (declared_length n)) - int (observed_size n t)"
      and "int (unat (declared_length n)) - int (observed_size n t) < 0"
      using lt small by linarith+
    then have "(int (unat (declared_length n)) - int (observed_size n t)) mod 65536
        = int (unat (declared_length n)) - int (observed_size n t) + 65536"
      by (rule mod_65536_negative)
    with m u v have "int (unat (Lost (pckt r)))
        = int (unat (declared_length n)) - int (observed_size n t) + 65536"
      by (simp only:)
    with lt small
    show "unat (Lost (pckt r)) = 65536 - (observed_size n t - unat (declared_length n))"
      by linarith
  qed
  have others: "(pckt r)\<lparr>Lost := 0\<rparr> = \<lparr>LinkLayer = packet_LinkLayer packet,
      NetworkLayer = Some n, TCP = Some (t\<lparr>DataOffset := DataOffset t * 4\<rparr>),
      DataLayer = packet_ApplicationLayer packet, Lost = 0,
      Timestamp = Timestamp_of now packet\<rparr>"
  proof (cases "pckt r")
    case (fields link net tcp data lost stamp)
    with r(3-7) show ?thesis by simp
  qed
  have no_err: "packet_ErrorLayer packet = None \<longrightarrow> err r = None"
    using r(8) by (simp add: deferred_err_def)
  show ?thesis
    by (rule exI [of _ r]) (intro conjI r(1) m wrapped others r(8) no_err)
qed

theorem Lost_is_difference_mod_65536_witness:
  "\<exists>r. ParsePacket 0 frame_40 = Inr r \<and> unat (Lost (pckt r)) = 65536 - 15
     \<and> err r = None"
proof -
  have "packet_NetworkLayer frame_40 = Some (example_ipv4 40)"
    and "example_ipv4 40 \<noteq> OtherNetworkLayer"
    and "packet_TransportLayer frame_40
           = Some (TCPLayer (example_tcp 5 True True [] (replicate 15 0)))"
    by (simp_all add: frame_40_def example_packet_def example_ipv4_def)
  from Lost_is_difference_mod_65536 [OF this, of 0]
  obtain r where r: "ParsePacket 0 frame_40 = Inr r"
    and wrapped: "unat (declared_length (example_ipv4 40))
          < observed_size (example_ipv4 40) (example_tcp 5 True True [] (replicate 15 0))
        \<and> observed_size (example_ipv4 40) (example_tcp 5 True True [] (replicate 15 0))
          - unat (declared_length (example_ipv4 40)) < 65536 \<longrightarrow>
        unat (Lost (pckt r)) = 65536
          - (observed_size (example_ipv4 40) (example_tcp 5 True True [] (replicate 15 0))
             - unat (declared_length (example_ipv4 40)))"
    and no_err: "packet_ErrorLayer frame_40 = None \<longrightarrow> err r = None"
    by (elim exE conjE)
  from wrapped have "unat (Lost (pckt r)) = 65536 - 15"
    by (simp add: example_ipv4_def example_tcp_def declared_length_def observed_size_def)
  moreover from no_err have "err r = None"
    by (simp add: frame_40_def example_packet_def)
  ultimately show ?thesis
    using r by blast
qed

section \<open>Frames that are not TCP over IP, and decode failures\<close>

lemma ParsePacket_cases:
  obtains (no_IP) "\<not> network_is_IP packet"
  | (no_TCP) n where "packet_NetworkLayer packet = Some n" "n \<noteq> OtherNetworkLayer"
      "\<not> transport_is_TCP packet"
  | (accepted) n t where "packet_NetworkLayer packet = Some n" "n \<noteq> OtherNetworkLayer"
      "packet_TransportLayer packet = Some (TCPLayer t)"
proof (cases "network_is_IP packet")
  case False
  then show ?thesis by (rule no_IP)
next
  case True
  then obtain n where n: "packet_NetworkLayer packet = Some n" "n \<noteq> OtherNetworkLayer"
    by (auto simp: network_is_IP_def split: option.splits NetworkLayer.splits)
  show ?thesis
  proof (cases "transport_is_TCP packet")
    case False
    with n show ?thesis by (rule no_TCP)
  next
    case True
    then obtain t where "packet_TransportLayer packet = Some (TCPLayer t)"
      by (auto simp: transport_is_TCP_def split: option.splits TransportLayer.splits)
    with n show ?thesis by (rule accepted)
  qed
qed

text \<open>
  C4 as stated fails: an IPv4 frame that carries no TCP segment yields, with
  no error, a record whose network layer is present and whose TCP layer is
  absent.
\<close>

theorem skip_record_counterexample:
  "\<not> transport_is_TCP frame_udp
   \<and> \<not> isl (ParsePacket 0 frame_udp)
   \<and> err (projr (ParsePacket 0 frame_udp)) = None
   \<and> NetworkLayer (pckt (projr (ParsePacket 0 frame_udp))) = Some (example_ipv4 60)
   \<and> TCP (pckt (projr (ParsePacket 0 frame_udp))) = None"
proof -
  have "packet_NetworkLayer frame_udp = Some (example_ipv4 60)"
    and "example_ipv4 60 \<noteq> OtherNetworkLayer"
    and "\<not> transport_is_TCP frame_udp"
    by (simp_all add: frame_udp_def example_packet_def example_ipv4_def transport_is_TCP_def)
  from ParsePacket_no_TCP [OF this, of 0] this(3) show ?thesis
    by (simp add: deferred_err_def frame_udp_def example_packet_def)
qed

text \<open>
  C4, amended.  \<open>ParsePacket\<close> always returns a record.  For a frame whose
  network layer is not IPv4/IPv6 or whose transport layer is not TCP the
  record holds the timestamp, the link layer and, when the network layer is
  IPv4 or IPv6, that network layer; its TCP layer and data layer are absent
  and \<open>Lost\<close> is 0; the frame is left as it was, and an error is returned
  exactly when the decoder attached an error layer.  In every record a present
  TCP layer comes with a present network layer.
\<close>

theorem skip_outcome:
  "\<exists>r. ParsePacket now packet = Inr r
     \<and> (TCP (pckt r) \<noteq> None \<longrightarrow> NetworkLayer (pckt r) \<noteq> None)
     \<and> (\<not> (network_is_IP packet \<and> transport_is_TCP packet) \<longrightarrow>
          TCP (pckt r) = None \<and> DataLayer (pckt r) = None \<and> Lost (pckt r) = 0
          \<and> NetworkLayer (pckt r)
              = (if network_is_IP packet then packet_NetworkLayer packet else None)
          \<and> LinkLayer (pckt r) = packet_LinkLayer packet
          \<and> Timestamp (pckt r) = Timestamp_of now packet
          \<and> packet_after r = packet
          \<and> (err r = None \<longleftrightarrow> packet_ErrorLayer packet = None))"
proof (cases packet rule: ParsePacket_cases)
  case no_IP
  with ParsePacket_no_IP [OF no_IP, of now] show ?thesis
    by (simp add: deferred_err_def split: option.splits)
next
  case (no_TCP n)
  then have "network_is_IP packet"
    by (cases n) (simp_all add: network_is_IP_def)
  with ParsePacket_no_TCP [OF no_TCP, of now] no_TCP show ?thesis
    by (simp add: deferred_err_def split: option.splits)
next
  case (accepted n t)
  then have "network_is_IP packet" "transport_is_TCP packet"
    by (cases n; simp add: network_is_IP_def transport_is_TCP_def)+
  with ParsePacket_accepted [OF accepted, of now] show ?thesis
    by auto
qed

theorem skip_outcome_witness:
  "\<not> (network_is_IP frame_arp \<and> transport_is_TCP frame_arp)
   \<and> (\<exists>r. ParsePacket 0 frame_arp = Inr r \<and> err r = None
          \<and> pckt r = new_Packet\<lparr>LinkLayer := Some [], Timestamp := 1000\<rparr>)"
proof -
  have shape: "\<not> (network_is_IP frame_arp \<and> transport_is_TCP frame_arp)"
    by (simp add: frame_arp_def example_packet_def network_is_IP_def)
  from skip_outcome [of 0 frame_arp]
  obtain r where r: "ParsePacket 0 frame_arp = Inr r"
    and skip: "\<not> (network_is_IP frame_arp \<and> transport_is_TCP frame_arp) \<longrightarrow>
          TCP (pckt r) = None \<and> DataLayer (pckt r) = None \<and> Lost (pckt r) = 0
          \<and> NetworkLayer (pckt r)
              = (if network_is_IP frame_arp then packet_NetworkLayer frame_arp else None)
          \<and> LinkLayer (pckt r) = packet_LinkLayer frame_arp
          \<and> Timestamp (pckt r) = Timestamp_of 0 frame_arp
          \<and> packet_after r = frame_arp
          \<and> (err r = None \<longleftrightarrow> packet_ErrorLayer frame_arp = None)"
    by (elim exE conjE)
  from skip shape have vals: "TCP (pckt r) = None" "DataLayer (pckt r) = None"
      "Lost (pckt r) = 0" "NetworkLayer (pckt r) = None" "LinkLayer (pckt r) = Some []"
      "Timestamp (pckt r) = 1000" "err r = None"
    by (simp_all add: frame_arp_def example_packet_def network_is_IP_def Timestamp_of_def)
  have "pckt r = new_Packet\<lparr>LinkLayer := Some [], Timestamp := 1000\<rparr>"
  proof (cases "pckt r")
    case (fields link net tcp data lost stamp)
    with vals(1-6) show ?thesis
      by (simp add: new_Packet_def)
  qed
  with shape r vals(7) show ?thesis
    by blast
qed

text \<open>
  C5 as stated fails: the error layer is inspected in a deferred function,
  when the body has run.  For a TCP-over-IPv4 frame that carries a decode
  failure the error is returned together with the fully built record, and the
  TCP layer of the frame has been rewritten.
\<close>

theorem decode_failure_counterexample:
  "packet_ErrorLayer frame_failed = Some (DecodeFailure ''Invalid TCP option length'')
   \<and> \<not> isl (ParsePacket 0 frame_failed)
   \<and> err (projr (ParsePacket 0 frame_failed)) = Some ''Invalid TCP option length''
   \<and> NetworkLayer (pckt (projr (ParsePacket 0 frame_failed))) = Some (example_ipv4 60)
   \<and> TCP (pckt (projr (ParsePacket 0 frame_failed)))
       = Some (example_tcp 20 True True [] (replicate 15 0))
   \<and> Lost (pckt (projr (ParsePacket 0 frame_failed))) = 5
   \<and> packet_after (projr (ParsePacket 0 frame_failed)) \<noteq> frame_failed"
proof -
  have "packet_NetworkLayer frame_failed = Some (IPv4 \<lparr>ipv4_IHL = 5, ipv4_Length = 60,
           ipv4_SrcIP = [10, 0, 0, 1], ipv4_DstIP = [10, 0, 0, 2]\<rparr>)"
    and "packet_TransportLayer frame_failed
           = Some (TCPLayer (example_tcp 5 True True [] (replicate 15 0)))"
    by (simp_all add: frame_failed_def example_packet_def example_ipv4_def)
  from ParsePacket_IPv4_TCP [OF this, of 0] show ?thesis
    by (simp add: deferred_err_def frame_failed_def example_packet_def example_ipv4_def
        example_tcp_def)
qed

text \<open>
  C5, amended.  For every frame to which the decoder attached an error layer,
  \<open>ParsePacket\<close> returns the error of that layer, whatever the other layers
  are.  The layers are processed first: the record returned alongside the
  error is the record the same frame gets without the error layer.
\<close>

theorem error_layer_is_returned:
  assumes "packet_ErrorLayer packet = Some e"
  shows "\<exists>r r0. ParsePacket now packet = Inr r
           \<and> err r = Some (ErrorLayer_Error e)
           \<and> ParsePacket now (packet\<lparr>packet_ErrorLayer := None\<rparr>) = Inr r0
           \<and> err r0 = None
           \<and> pckt r = pckt r0"
proof (cases packet rule: ParsePacket_cases)
  case no_IP
  then have "\<not> network_is_IP (packet\<lparr>packet_ErrorLayer := None\<rparr>)"
    by (simp add: network_is_IP_def)
  from ParsePacket_no_IP [OF no_IP, of now] ParsePacket_no_IP [OF this, of now] assms
  show ?thesis
    by (simp add: deferred_err_def Timestamp_of_def)
next
  case (no_TCP n)
  then have "packet_NetworkLayer (packet\<lparr>packet_ErrorLayer := None\<rparr>) = Some n"
    and "n \<noteq> OtherNetworkLayer"
    and "\<not> transport_is_TCP (packet\<lparr>packet_ErrorLayer := None\<rparr>)"
    by (simp_all add: transport_is_TCP_def)
  from ParsePacket_no_TCP [OF no_TCP, of now] ParsePacket_no_TCP [OF this, of now] assms
  show ?thesis
    by (simp add: deferred_err_def Timestamp_of_def)
next
  case (accepted n t)
  show ?thesis
  proof (cases n)
    case (IPv4 l)
    from ParsePacket_IPv4_TCP [of packet l t now]
      ParsePacket_IPv4_TCP [of "packet\<lparr>packet_ErrorLayer := None\<rparr>" l t now]
      accepted assms IPv4
    show ?thesis
      by (simp add: deferred_err_def Timestamp_of_def)
  next
    case (IPv6 l)
    from ParsePacket_IPv6_TCP [of packet l t now]
      ParsePacket_IPv6_TCP [of "packet\<lparr>packet_ErrorLayer := None\<rparr>" l t now]
      accepted assms IPv6
    show ?thesis
      by (simp add: deferred_err_def Timestamp_of_def)
  next
    case OtherNetworkLayer
    with accepted show ?thesis by simp
  qed
qed

theorem error_layer_is_returned_witness:
  "\<exists>r r0. ParsePacket 0 frame_failed = Inr r
     \<and> err r = Some ''Invalid TCP option length''
     \<and> ParsePacket 0 (frame_failed\<lparr>packet_ErrorLayer := None\<rparr>) = Inr r0
     \<and> err r0 = None \<and> pckt r = pckt r0"
proof -
  have "packet_ErrorLayer frame_failed = Some (DecodeFailure ''Invalid TCP option length'')"
    by (simp add: frame_failed_def example_packet_def)
  from error_layer_is_returned [OF this, of 0] show ?thesis
    by simp
qed

section \<open>Flag\<close>

text \<open>
  C6 as stated fails: \<open>Flag\<close> reads the flags through the pointer
  \<open>pckt.TCP\<close> and, like the other methods of \<open>Packet\<close>, does not check
  it.  On the record that \<open>ParsePacket\<close> returns, with no error, for an
  IPv4 frame without a TCP segment, \<open>Flag\<close> does not return the empty
  string: it panics.
\<close>

theorem Flag_without_TCP_counterexample:
  "\<not> isl (ParsePacket 0 frame_udp)
   \<and> err (projr (ParsePacket 0 frame_udp)) = None
   \<and> Flag (pckt (projr (ParsePacket 0 frame_udp))) = Inl NilDereference"
proof -
  have "packet_NetworkLayer frame_udp = Some (example_ipv4 60)"
    and "example_ipv4 60 \<noteq> OtherNetworkLayer"
    and "\<not> transport_is_TCP frame_udp"
    by (simp_all add: frame_udp_def example_packet_def example_ipv4_def transport_is_TCP_def)
  from ParsePacket_no_TCP [OF this, of 0] show ?thesis
    by (simp add: deferred_err_def frame_udp_def example_packet_def Flag_def)
qed

text \<open>
  C6, amended.  For every record that has a TCP layer, \<open>Flag\<close> returns the
  names of exactly the flags that are set, in the order FIN, SYN, RST, PSH,
  ACK, URG, joined by a comma and a space: the result does not end in a
  separator, it is the empty string when no flag is set, and it is
  \<open>SYN, ACK\<close> when only SYN and ACK are set.
\<close>

theorem Flag_joins_set_flags:
  assumes "TCP p = Some t"
  shows "\<exists>s. Flag p = Inr s
           \<and> s = join_with '', '' (set_flag_names t)
           \<and> drop (length s - 2) s \<noteq> '', ''
           \<and> (\<not> FIN t \<and> \<not> SYN t \<and> \<not> RST t \<and> \<not> PSH t \<and> \<not> ACK t \<and> \<not> URG t
                \<longrightarrow> s = [])
           \<and> (\<not> FIN t \<and> SYN t \<and> \<not> RST t \<and> \<not> PSH t \<and> ACK t \<and> \<not> URG t
                \<longrightarrow> s = ''SYN, ACK'')"
  using assms
  by (cases "FIN t"; cases "SYN t"; cases "RST t"; cases "PSH t"; cases "ACK t"; cases "URG t")
     (simp_all add: Flag_def set_flag_names_def)

theorem Flag_joins_set_flags_witness:
  "\<exists>r t. ParsePacket 0 frame_60 = Inr r \<and> TCP (pckt r) = Some t
     \<and> Flag (pckt r) = Inr ''SYN, ACK''"
proof -
  have "packet_NetworkLayer frame_60 = Some (example_ipv4 60)"
    and "example_ipv4 60 \<noteq> OtherNetworkLayer"
    and "packet_TransportLayer frame_60
           = Some (TCPLayer (example_tcp 5 True True [] (replicate 15 0)))"
    by (simp_all add: frame_60_def example_packet_def example_ipv4_def)
  from ParsePacket_accepted [OF this, of 0]
  obtain r where r: "ParsePacket 0 frame_60 = Inr r"
      "TCP (pckt r) = Some ((example_tcp 5 True True [] (replicate 15 0))
         \<lparr>DataOffset := DataOffset (example_tcp 5 True True [] (replicate 15 0)) * 4\<rparr>)"
    by blast
  from Flag_joins_set_flags [OF r(2)] have "Flag (pckt r) = Inr ''SYN, ACK''"
    by (simp add: example_tcp_def)
  with r show ?thesis by blast
qed

section \<open>SYNOptions\<close>

text \<open>
  C7.  For every record whose TCP layer has the SYN flag clear,
  \<open>SYNOptions\<close> returns MSS 0 and window scale 0 whatever the options are;
  the function has no error result and this path reads no option, so it
  cannot panic.
\<close>

theorem SYNOptions_without_SYN:
  assumes "TCP p = Some t" and "\<not> SYN t"
  shows "SYNOptions p = Inr (0, 0)"
  using assms by (simp add: SYNOptions_def)

theorem SYNOptions_without_SYN_witness:
  "SYNOptions ack_record_short_MSS = Inr (0, 0)"
proof -
  have "TCP ack_record_short_MSS = Some (example_tcp 24 False True short_MSS_options [])"
    and "\<not> SYN (example_tcp 24 False True short_MSS_options [])"
    by (simp_all add: ack_record_short_MSS_def record_of_def example_tcp_def)
  then show ?thesis by (rule SYNOptions_without_SYN)
qed

lemma unat_shift_one: "unat (push_bit n (1::uint16)) = 2 ^ n mod 65536"
  unfolding unsigned_push_bit_eq
  by (simp add: take_bit_eq_mod push_bit_eq_mult)

lemma unat_two_power: "unat ((2::uint16) ^ n) = 2 ^ n mod 65536"
  using unat_shift_one [of n] by (simp only: push_bit_of_1)

lemma unat_big_endian:
  "unat ((ucast (b1::byte) :: uint16) OR push_bit 8 (ucast (b0::byte)))
     = 256 * unat b0 + unat b1"
proof -
  have lt: "unat b0 < 256" "unat b1 < 256"
    using unsigned_less [of b0, where ?'a = nat] unsigned_less [of b1, where ?'a = nat]
    by simp_all
  have "unat ((ucast b1 :: uint16) OR push_bit 8 (ucast b0))
      = unat (ucast b1 :: uint16) OR unat (push_bit 8 (ucast b0 :: uint16))"
    by (simp only: unsigned_or_eq)
  also have "unat (ucast b1 :: uint16) = unat b1"
    using lt by (simp add: unsigned_ucast_eq take_bit_eq_mod)
  also have "unat (push_bit 8 (ucast b0 :: uint16)) = push_bit 8 (unat b0)"
    unfolding unsigned_push_bit_eq
    using lt by (simp add: unsigned_ucast_eq take_bit_eq_mod push_bit_eq_mult)
  also have "unat b1 OR push_bit 8 (unat b0) = unat b1 + push_bit 8 (unat b0)"
    by (rule disjunctive_add [symmetric]) (auto simp: bit_simps dest: bit_imp_le_length)
  finally show ?thesis
    by (simp add: push_bit_eq_mult)
qed

lemma BigEndian_Uint16_value:
  assumes "2 \<le> length bs"
  shows "\<exists>m. BigEndian_Uint16 bs = Inr m \<and> unat m = big_endian_16 bs"
proof -
  from assms obtain b0 b1 rest where "bs = b0 # b1 # rest"
    by (cases bs; cases "tl bs") auto
  then show ?thesis
    by (simp add: big_endian_16_def unat_big_endian)
qed

lemma last_where_Cons:
  "last_where P (x # xs) = (case last_where P xs of
       Some y \<Rightarrow> Some y | None \<Rightarrow> if P x then Some x else None)"
  by (simp add: last_where_def split: list.splits)

text \<open>
  The scan, from any starting values: each result is the starting value
  unless an option of its kind occurs, and then it comes from the last one.
\<close>

lemma SYNOptions_loop_last_wins:
  assumes "\<forall>v \<in> set vs. data_long_enough v"
  shows "\<exists>m' w'. SYNOptions_loop vs m w = Inr (m', w')
     \<and> unat m' = (case last_where is_MSS vs of
                    None \<Rightarrow> unat m | Some v \<Rightarrow> big_endian_16 (OptionData v))
     \<and> unat w' = (case last_where is_WindowScale vs of
                    None \<Rightarrow> unat w
                  | Some v \<Rightarrow> (case OptionData v of
                                [] \<Rightarrow> 0 | b # bs \<Rightarrow> 2 ^ unat b mod 65536))"
  using assms
proof (induction vs arbitrary: m w)
  case Nil
  show ?case by (simp add: last_where_def)
next
  case (Cons v vs)
  then have long: "data_long_enough v" and rest: "\<forall>u \<in> set vs. data_long_enough u"
    by simp_all
  consider (mss) "is_MSS v" | (scale) "\<not> is_MSS v" "is_WindowScale v"
    | (other) "\<not> is_MSS v" "\<not> is_WindowScale v"
    by blast
  then show ?case
  proof cases
    case mss
    with long have "2 \<le> length (OptionData v)"
      by (simp add: data_long_enough_def)
    then obtain m1 where m1: "BigEndian_Uint16 (OptionData v) = Inr m1"
        "unat m1 = big_endian_16 (OptionData v)"
      using BigEndian_Uint16_value by blast
    have not_scale: "\<not> is_WindowScale v"
      using mss by (simp add: is_MSS_def is_WindowScale_def TCPOptionKindMSS_def
          TCPOptionKindWindowScale_def)
    have step: "SYNOptions_loop (v # vs) m w = SYNOptions_loop vs m1 w"
      using mss m1(1) by (simp add: is_MSS_def)
    from Cons.IH [OF rest, of m1 w] show ?thesis
      unfolding step
      by (auto simp: last_where_Cons mss not_scale m1(2) split: option.splits)
  next
    case scale
    with long obtain b bs where data: "OptionData v = b # bs"
      by (cases "OptionData v") (simp_all add: data_long_enough_def)
    have step: "SYNOptions_loop (v # vs) m w = SYNOptions_loop vs m (push_bit (unat b) 1)"
      using scale data by (simp add: is_MSS_def is_WindowScale_def)
    from Cons.IH [OF rest, of m "push_bit (unat b) 1"] show ?thesis
      unfolding step
      by (auto simp: last_where_Cons scale data unat_two_power split: option.splits)
  next
    case other
    have step: "SYNOptions_loop (v # vs) m w = SYNOptions_loop vs m w"
      using other by (simp add: is_MSS_def is_WindowScale_def)
    from Cons.IH [OF rest, of m w] show ?thesis
      unfolding step
      by (auto simp: last_where_Cons other split: option.splits)
  qed
qed

text \<open>
  C8.  The claim does not hold of the code.  The source annotates the shift
  \<open>1 << v.OptionData[0]\<close> with the comment \<open>2 ** windowscale\<close>, but the
  shift is one of a \<open>uint16\<close> and nothing bounds the data byte: a SYN
  record whose window-scale option carries the data byte 16 gets the window
  scale 0, not \<open>2^16\<close>.
\<close>

theorem SYNOptions_windowscale_16_is_0:
  "last_WindowScale (Options (example_tcp 24 True False
       [\<lparr>OptionType = 3, OptionLength = 3, OptionData = [16]\<rparr>,
        \<lparr>OptionType = 0, OptionLength = 1, OptionData = []\<rparr>] [])) = Some 16
   \<and> SYNOptions syn_record_scale_16 = Inr (0, 0)
   \<and> unat (snd (projr (SYNOptions syn_record_scale_16))) \<noteq> 2 ^ 16"
  by (simp add: SYNOptions_def syn_record_scale_16_def record_of_def example_tcp_def
      TCPOptionKindMSS_def TCPOptionKindWindowScale_def last_WindowScale_def
      last_where_def is_WindowScale_def)

text \<open>
  What the scan computes on a SYN record whose MSS options carry at least
  two data bytes and whose window-scale options of nonzero declared length
  carry at least one: as MSS the big-endian value of the first two data bytes
  of the last MSS option (0 when there is none); as window scale the value
  \<open>2^n\<close> for \<open>n < 16\<close>, where \<open>n\<close> is the first data byte of the last
  window-scale option of nonzero declared length (0 when there is none), and
  the overflowed value 0 from \<open>n = 16\<close> on.  Options of other kinds and
  window-scale options of declared length 0 change nothing.
\<close>

lemma SYNOptions_last_wins:
  assumes "TCP p = Some t" and "SYN t"
      and "\<forall>v \<in> set (Options t). data_long_enough v"
  shows "\<exists>mss windowscale. SYNOptions p = Inr (mss, windowscale)
     \<and> unat mss = last_MSS (Options t)
     \<and> unat windowscale = (case last_WindowScale (Options t) of
                              None \<Rightarrow> 0 | Some n \<Rightarrow> 2 ^ n mod 65536)
     \<and> (\<forall>n. last_WindowScale (Options t) = Some n \<and> n < 16 \<longrightarrow> unat windowscale = 2 ^ n)
     \<and> (\<forall>n. last_WindowScale (Options t) = Some n \<and> 16 \<le> n \<longrightarrow> windowscale = 0)"
proof -
  from SYNOptions_loop_last_wins [OF assms(3), of 0 0]
  have "\<exists>m' w'. SYNOptions_loop (Options t) 0 0 = Inr (m', w')
     \<and> unat m' = (case last_where is_MSS (Options t) of
                    None \<Rightarrow> 0 | Some v \<Rightarrow> big_endian_16 (OptionData v))
     \<and> unat w' = (case last_where is_WindowScale (Options t) of
                    None \<Rightarrow> 0
                  | Some v \<Rightarrow> (case OptionData v of
                                [] \<Rightarrow> 0 | b # bs \<Rightarrow> 2 ^ unat b mod 65536))"
    by (simp cong: option.case_cong)
  then obtain m' w' where loop: "SYNOptions_loop (Options t) 0 0 = Inr (m', w')"
    and m': "unat m' = (case last_where is_MSS (Options t) of
                    None \<Rightarrow> 0 | Some v \<Rightarrow> big_endian_16 (OptionData v))"
    and w': "unat w' = (case last_where is_WindowScale (Options t) of
                    None \<Rightarrow> 0
                  | Some v \<Rightarrow> (case OptionData v of
                                [] \<Rightarrow> 0 | b # bs \<Rightarrow> 2 ^ unat b mod 65536))"
    by blast
  have result: "SYNOptions p = Inr (m', w')"
    using assms(1,2) loop by (simp add: SYNOptions_def)
  have mss: "unat m' = last_MSS (Options t)"
    using m' by (simp add: last_MSS_def)
  have scale: "unat w' = (case last_WindowScale (Options t) of
                              None \<Rightarrow> 0 | Some n \<Rightarrow> 2 ^ n mod 65536)"
  proof (cases "last_where is_WindowScale (Options t)")
    case None
    with w' show ?thesis by (simp add: last_WindowScale_def)
  next
    case (Some v)
    with w' show ?thesis
      by (cases "OptionData v") (simp_all add: last_WindowScale_def)
  qed
  have small: "unat w' = 2 ^ n" if "last_WindowScale (Options t) = Some n" "n < 16" for n
  proof -
    have "(2::nat) ^ n < 2 ^ 16"
      using that(2) by (intro power_strict_increasing) simp_all
    with scale that(1) show ?thesis by simp
  qed
  have large: "w' = 0" if "last_WindowScale (Options t) = Some n" "16 \<le> n" for n
  proof -
    have "(2::nat) ^ 16 dvd 2 ^ n"
      using that(2) by (rule le_imp_power_dvd)
    then have "(2::nat) ^ n mod 65536 = 0" by simp
    with scale that(1) have "unat w' = 0" by simp
    then show ?thesis by (simp add: unat_eq_0)
  qed
  from result mss scale small large show ?thesis by blast
qed

lemma SYNOptions_last_wins_example:
  "SYNOptions syn_record = Inr (1460, 128)"
proof -
  let ?t = "example_tcp 28 True False
        [\<lparr>OptionType = 2, OptionLength = 4, OptionData = [0x05, 0xB4]\<rparr>,
         \<lparr>OptionType = 1, OptionLength = 1, OptionData = []\<rparr>,
         \<lparr>OptionType = 3, OptionLength = 3, OptionData = [0x07]\<rparr>] []"
  have tcp: "TCP syn_record = Some ?t"
    by (simp add: syn_record_def record_of_def)
  have syn: "SYN ?t"
    by (simp add: example_tcp_def)
  have long: "\<forall>v \<in> set (Options ?t). data_long_enough v"
    by (simp add: example_tcp_def data_long_enough_def is_MSS_def is_WindowScale_def
        TCPOptionKindMSS_def TCPOptionKindWindowScale_def)
  have mss: "last_MSS (Options ?t) = 1460"
    by (simp add: example_tcp_def last_MSS_def last_where_def is_MSS_def
        TCPOptionKindMSS_def big_endian_16_def)
  have scale: "last_WindowScale (Options ?t) = Some 7"
    by (simp add: example_tcp_def last_WindowScale_def last_where_def is_WindowScale_def
        TCPOptionKindWindowScale_def)
  from SYNOptions_last_wins [OF tcp syn long]
  obtain m w where r: "SYNOptions syn_record = Inr (m, w)"
      "unat m = last_MSS (Options ?t)"
      "unat w = (case last_WindowScale (Options ?t) of
                   None \<Rightarrow> 0 | Some n \<Rightarrow> 2 ^ n mod 65536)"
    by (elim exE conjE)
  from r(2) mss have "unat m = unat (1460 :: uint16)" by simp
  then have "m = 1460" by (rule word_unat_eq_iff [THEN iffD2])
  moreover from r(3) scale have "unat w = unat (128 :: uint16)" by simp
  then have "w = 128" by (rule word_unat_eq_iff [THEN iffD2])
  ultimately show ?thesis
    using r(1) by simp
qed

text \<open>
  C9.  The claim does not hold of the code: an MSS option of declared
  length 2 carries no data, and \<open>binary.BigEndian.Uint16\<close> panics on it; a
  window-scale option of declared length 2 passes the test
  \<open>OptionLength > 0\<close> and \<open>OptionData[0]\<close> panics.  The first record is the
  one \<open>ParsePacket\<close> returns, with no error, for a SYN segment with such an
  option.
\<close>

theorem SYNOptions_short_option_panics:
  "\<not> isl (ParsePacket 0 frame_short_MSS)
   \<and> err (projr (ParsePacket 0 frame_short_MSS)) = None
   \<and> SYNOptions (pckt (projr (ParsePacket 0 frame_short_MSS))) = Inl IndexOutOfRange
   \<and> SYNOptions syn_record_short_scale = Inl IndexOutOfRange"
proof -
  have "packet_NetworkLayer frame_short_MSS = Some (example_ipv4 44)"
    and "example_ipv4 44 \<noteq> OtherNetworkLayer"
    and "packet_TransportLayer frame_short_MSS
           = Some (TCPLayer (example_tcp 6 True False short_MSS_options []))"
    by (simp_all add: frame_short_MSS_def example_packet_def example_ipv4_def)
  from ParsePacket_accepted [OF this, of 0]
  have "\<not> isl (ParsePacket 0 frame_short_MSS)"
    and "err (projr (ParsePacket 0 frame_short_MSS)) = None"
    and "SYNOptions (pckt (projr (ParsePacket 0 frame_short_MSS))) = Inl IndexOutOfRange"
    by (auto simp: SYNOptions_def example_tcp_def short_MSS_options_def
        TCPOptionKindMSS_def deferred_err_def frame_short_MSS_def example_packet_def)
  moreover have "SYNOptions syn_record_short_scale = Inl IndexOutOfRange"
    by (simp add: SYNOptions_def syn_record_short_scale_def record_of_def example_tcp_def
        TCPOptionKindMSS_def TCPOptionKindWindowScale_def)
  ultimately show ?thesis by blast
qed

end
